theory Spec2Isabelle
  imports Complex_Main
begin

section \<open>Python values and text formatting used by \<open>get_mp3_metadata\<close>\<close>

text \<open>
  The program is one Python function, \<open>get_mp3_metadata(url)\<close> (src/main.py, lines
  17 to 164), that calls into \<open>requests\<close>, \<open>tempfile\<close>, \<open>os\<close> and
  \<open>mutagen\<close>.  The function itself is embedded below; what the libraries answer is a
  parameter of the model (the record \<open>world\<close>).  Python's \<open>int\<close> is \<open>int\<close>,
  \<open>str\<close> is \<open>string\<close>, the returned \<open>dict\<close> is a map from keys to texts, and
  an exception is the \<open>Inl\<close> branch of a sum.
\<close>

type_synonym bytes = string

text \<open>
  Instances of \<open>Exception\<close>, each with the text \<open>str(e)\<close> gives.
  \<open>HeaderNotFoundError\<close> is \<open>mutagen.mp3.HeaderNotFoundError\<close>; \<open>ValueError\<close>
  and \<open>OverflowError\<close> are raised by the built-ins modelled here; \<open>OtherException\<close>
  stands for every other subclass of \<open>Exception\<close> a library call may raise
  (\<open>requests.ConnectionError\<close>, \<open>OSError\<close>, \<open>mutagen.MutagenError\<close>, ...).
  Interrupts that are not instances of \<open>Exception\<close> (\<open>KeyboardInterrupt\<close>,
  \<open>SystemExit\<close>) come from outside the calls modelled and are not represented.
\<close>

datatype exn =
    HeaderNotFoundError string
  | ValueError string
  | OverflowError string
  | OtherException string

fun str_exn :: "exn \<Rightarrow> string" where
  "str_exn (HeaderNotFoundError m) = m"
| "str_exn (ValueError m) = m"
| "str_exn (OverflowError m) = m"
| "str_exn (OtherException m) = m"

text \<open>
  A value that is either a Python \<open>int\<close> or a Python \<open>str\<close>: what
  \<open>getattr(info, "channels", "Unknown")\<close> yields, and what \<open>int(...)\<close> is applied to
  in line 21.
\<close>

datatype pyval = PyInt int | PyStr string

subsection \<open>Decimal text of integers\<close>

definition digit_char :: "nat \<Rightarrow> char" where
  "digit_char d = ''0123456789'' ! (d mod 10)"

function str_nat :: "nat \<Rightarrow> string" where
  "str_nat n = (if n < 10 then [digit_char n] else str_nat (n div 10) @ [digit_char (n mod 10)])"
  by pat_completeness auto
termination
  by (relation "measure (\<lambda>n. n)") auto

declare str_nat.simps [simp del]

text \<open>\<open>str(n)\<close> for a Python int, as an f-string field \<open>{n}\<close> prints it.\<close>

definition str_int :: "int \<Rightarrow> string" where
  "str_int n = (if n < 0 then CHR ''-'' # str_nat (nat (- n)) else str_nat (nat n))"

text \<open>The f-string field \<open>{v}\<close> for a value that is an int or a str.\<close>

fun py_format :: "pyval \<Rightarrow> string" where
  "py_format (PyInt n) = str_int n"
| "py_format (PyStr s) = s"

text \<open>
  The f-string field \<open>{n:02d}\<close>: sign-aware zero padding to a total width of 2.
\<close>

definition fmt_02d :: "int \<Rightarrow> string" where
  "fmt_02d n =
     (if n < 0 then CHR ''-'' # str_nat (nat (- n))
      else if n < 10 then CHR ''0'' # str_nat (nat n)
      else str_nat (nat n))"

subsection \<open>\<open>int(x)\<close> on a header value\<close>

definition is_space :: "char \<Rightarrow> bool" where
  "is_space c = (c \<in> set [CHR '' '', CHR 0x09, CHR 0x0A, CHR 0x0B, CHR 0x0C, CHR 0x0D,
                            CHR 0x85, CHR 0xA0])"

definition is_digit :: "char \<Rightarrow> bool" where
  "is_digit c = (c \<in> set ''0123456789'')"

definition digit_val :: "char \<Rightarrow> nat" where
  "digit_val c = of_char c - 48"

definition strip :: "string \<Rightarrow> string" where
  "strip s = rev (dropWhile is_space (rev (dropWhile is_space s)))"

text \<open>
  The scan of the digits of a base-10 literal, as the interpreter does it: digits and
  underscores are read as long as they come, two underscores in a row end the scan with
  an error, and the scan returns the value, the number of digits, the last character
  read and the text that is left.
\<close>

fun scan_digits :: "string \<Rightarrow> char \<Rightarrow> nat \<Rightarrow> nat \<Rightarrow> (nat \<times> nat \<times> char \<times> string) option" where
  "scan_digits [] prev v digits = Some (v, digits, prev, [])"
| "scan_digits (c # cs) prev v digits =
     (if is_digit c then scan_digits cs c (10 * v + digit_val c) (digits + 1)
      else if c = CHR ''_'' then
        (if prev = CHR ''_'' then None else scan_digits cs c v digits)
      else Some (v, digits, prev, c # cs))"

datatype 'a literal = Literal 'a | NotLiteral | TooManyDigits nat

text \<open>
  A literal does not start or end with an underscore, has at least one digit and
  nothing after the scan.  A scan of more than 4300 digits (the interpreter's default
  limit for the conversion of a str to an int) is refused before the rest is looked at.
\<close>

definition unsigned_literal :: "string \<Rightarrow> nat literal" where
  "unsigned_literal s =
     (case s of
        [] \<Rightarrow> NotLiteral
      | c # cs \<Rightarrow>
          if c = CHR ''_'' then NotLiteral
          else
            (case scan_digits s (CHR 0x00) 0 0 of
               None \<Rightarrow> NotLiteral
             | Some (v, digits, prev, rest) \<Rightarrow>
                 if prev = CHR ''_'' then NotLiteral
                 else if 4300 < digits then TooManyDigits digits
                 else if digits = 0 then NotLiteral
                 else if rest \<noteq> [] then NotLiteral
                 else Literal v))"

text \<open>
  \<open>int(s)\<close> on a str: surrounding whitespace is dropped, one sign may come first.
\<close>

definition int_literal :: "string \<Rightarrow> int literal" where
  "int_literal s =
     (case strip s of
        [] \<Rightarrow> NotLiteral
      | c # cs \<Rightarrow>
          (let (sign, digits) =
                 (if c = CHR ''-'' then (- 1, cs) else if c = CHR ''+'' then (1, cs)
                  else (1, c # cs))
           in case unsigned_literal digits of
                Literal n \<Rightarrow> Literal (sign * int n)
              | NotLiteral \<Rightarrow> NotLiteral
              | TooManyDigits k \<Rightarrow> TooManyDigits k))"

text \<open>
  \<open>int(x)\<close>: the identity on an int; on a str the value of the base-10 literal, and
  \<open>ValueError\<close> when the text is not one or has too many digits.  A \<open>char\<close> is a
  code point below 256 (\<open>requests\<close> decodes header values as Latin-1); the quoting
  of \<open>repr\<close> in the message is written for a text without quotes or escapes.
\<close>

fun py_int :: "pyval \<Rightarrow> exn + int" where
  "py_int (PyInt n) = Inr n"
| "py_int (PyStr s) =
     (case int_literal s of
        Literal n \<Rightarrow> Inr n
      | NotLiteral \<Rightarrow>
          Inl (ValueError (''invalid literal for int() with base 10: ''
                           @ [CHR 0x27] @ s @ [CHR 0x27]))
      | TooManyDigits k \<Rightarrow>
          Inl (ValueError (''Exceeds the limit (4300 digits) for integer string conversion: value has ''
                           @ str_nat k
                           @ '' digits; use sys.set_int_max_str_digits() to increase the limit'')))"

subsection \<open>The file size text: \<open>f"{total_size / (1024 * 1024):.2f}"\<close>\<close>

text \<open>
  \<open>total_size\<close> is a Python int of any size and \<open>/\<close> is true division into a
  double.  The divisor is \<open>2 ^ 20\<close>, so the quotient is \<open>total_size\<close> rounded to 53
  significant bits (ties to even) over \<open>2 ^ 20\<close>, and the division raises
  \<open>OverflowError\<close> when that is \<open>2 ^ 1024\<close> or more.  \<open>true_div_mb\<close> returns the
  numerator of the magnitude.  \<open>:.2f\<close> rounds the exact value of the double to
  hundredths, ties to even, and keeps the sign of a negative double.
\<close>

definition round_half_even :: "nat \<Rightarrow> nat \<Rightarrow> nat" where
  "round_half_even a b =
     (let q = a div b; r = a mod b
      in if 2 * r < b then q else if b < 2 * r then q + 1 else if even q then q else q + 1)"

fun bit_length :: "nat \<Rightarrow> nat" where
  "bit_length n = (if n = 0 then 0 else Suc (bit_length (n div 2)))"

declare bit_length.simps [simp del]

definition true_div_mb :: "int \<Rightarrow> exn + nat" where
  "true_div_mb n =
     (let a = nat \<bar>n\<bar>;
          v = (if a < 2 ^ 53 then a
               else (let k = bit_length a - 53 in round_half_even a (2 ^ k) * 2 ^ k))
      in if 2 ^ 1044 \<le> v
         then Inl (OverflowError ''integer division result too large for a float'')
         else Inr v)"

definition size_mb :: "int \<Rightarrow> exn + string" where
  "size_mb n =
     (case true_div_mb n of
        Inl e \<Rightarrow> Inl e
      | Inr v \<Rightarrow>
          (let h = round_half_even (v * 100) (2 ^ 20)
           in Inr ((if n < 0 then [CHR ''-''] else []) @ str_nat (h div 100) @ [CHR ''.'']
                   @ [digit_char (h mod 100 div 10), digit_char (h mod 10)])))"

subsection \<open>Duration: \<open>divmod(info.length, 60)\<close> and \<open>int(...)\<close>\<close>

text \<open>
  \<open>info.length\<close> is a Python float.  A finite double is a rational number, and the
  model keeps that rational: \<open>divmod\<close> is the floor quotient and the remainder computed
  exactly (as the double computation is for lengths from 0 up to \<open>2 ^ 55\<close> seconds),
  and infinities and NaN are not represented.  \<open>int(x)\<close> truncates towards zero.
\<close>

definition py_divmod :: "rat \<Rightarrow> rat \<Rightarrow> rat \<times> rat" where
  "py_divmod x y = (let q = \<lfloor>x / y\<rfloor> in (of_int q, x - y * of_int q))"

definition int_of_float :: "rat \<Rightarrow> int" where
  "int_of_float x = (if 0 \<le> x then \<lfloor>x\<rfloor> else \<lceil>x\<rceil>)"

section \<open>Structural info and the report\<close>

text \<open>
  The \<open>info\<close> object of a mutagen file: each attribute may be missing
  (\<open>hasattr\<close> is \<open>False\<close>), which is \<open>None\<close> here.  The length is a float in
  seconds; channels, sample rate and bitrate are ints.
\<close>

record info =
  length_attr :: "rat option"
  channels_attr :: "int option"
  sample_rate_attr :: "int option"
  bitrate_attr :: "int option"

text \<open>\<open>getattr(info, name, default)\<close> on an int attribute.\<close>

definition getattr_default :: "int option \<Rightarrow> pyval \<Rightarrow> pyval" where
  "getattr_default a d = (case a of Some n \<Rightarrow> PyInt n | None \<Rightarrow> d)"

type_synonym dict = "string \<rightharpoonup> string"

text \<open>
  Lines 59 to 100: the report built from the info of the first attempt.  The bitrate
  expression \<open>getattr(info, "bitrate", 0) // 1000 if hasattr(info, "bitrate") else 0\<close>
  reads the attribute only when it is there.  The dict display evaluates
  \<open>file_size\<close> first, where the true division may raise.  The \<open>print\<close> calls
  of the function write to standard output; they are left out, except for the division
  in the f-string of line 23.
\<close>

definition report_primary :: "int \<Rightarrow> info \<Rightarrow> exn + dict" where
  "report_primary total_size i =
     (let duration =
            (case length_attr i of
               Some l \<Rightarrow>
                 (let (minutes, seconds) = py_divmod l 60
                  in str_int (int_of_float minutes) @ '':'' @ fmt_02d (int_of_float seconds))
             | None \<Rightarrow> ''Unknown'');
          channels = getattr_default (channels_attr i) (PyStr ''Unknown'');
          channel_text =
            (if channels = PyInt 1 then ''Mono''
             else if channels = PyInt 2 then ''Stereo''
             else py_format channels @ '' channels'');
          sample_rate = getattr_default (sample_rate_attr i) (PyStr ''Unknown'');
          bitrate = (case bitrate_attr i of Some b \<Rightarrow> b div 1000 | None \<Rightarrow> 0)
      in case size_mb total_size of
           Inl e \<Rightarrow> Inl e
         | Inr mb \<Rightarrow>
             Inr [''file_size'' \<mapsto> mb @ '' MB'',
                  ''duration'' \<mapsto> duration,
                  ''channels'' \<mapsto> channel_text,
                  ''sample_rate'' \<mapsto>
                     (if sample_rate \<noteq> PyStr ''Unknown'' then py_format sample_rate @ '' Hz''
                      else ''Unknown''),
                  ''bitrate'' \<mapsto>
                     (if bitrate \<noteq> 0 then str_int bitrate @ '' kbps'' else ''Unknown'')])"

text \<open>
  Lines 110 to 141: the report built from the info of the second attempt, a second
  copy of the statements above in the source.
\<close>

definition report_fallback :: "int \<Rightarrow> info \<Rightarrow> exn + dict" where
  "report_fallback total_size i =
     (let duration =
            (case length_attr i of
               Some l \<Rightarrow>
                 (let (minutes, seconds) = py_divmod l 60
                  in str_int (int_of_float minutes) @ '':'' @ fmt_02d (int_of_float seconds))
             | None \<Rightarrow> ''Unknown'');
          channels = getattr_default (channels_attr i) (PyStr ''Unknown'');
          channel_text =
            (if channels = PyInt 1 then ''Mono''
             else if channels = PyInt 2 then ''Stereo''
             else py_format channels @ '' channels'');
          sample_rate = getattr_default (sample_rate_attr i) (PyStr ''Unknown'');
          bitrate = (case bitrate_attr i of Some b \<Rightarrow> b div 1000 | None \<Rightarrow> 0)
      in case size_mb total_size of
           Inl e \<Rightarrow> Inl e
         | Inr mb \<Rightarrow>
             Inr [''file_size'' \<mapsto> mb @ '' MB'',
                  ''duration'' \<mapsto> duration,
                  ''channels'' \<mapsto> channel_text,
                  ''sample_rate'' \<mapsto>
                     (if sample_rate \<noteq> PyStr ''Unknown'' then py_format sample_rate @ '' Hz''
                      else ''Unknown''),
                  ''bitrate'' \<mapsto>
                     (if bitrate \<noteq> 0 then str_int bitrate @ '' kbps'' else ''Unknown'')])"

section \<open>The libraries as a parameter\<close>

text \<open>The six mutagen entry points the function calls (lines 45 to 55 and 104).\<close>

datatype parser = MP3 | MP4 | FLAC | OggVorbis | WAVE | File

text \<open>
  What a mutagen call returns: \<open>None\<close>, or an object that has no attribute
  \<open>info\<close>, or one whose \<open>info\<close> is \<open>None\<close> or an info object.
\<close>

datatype audio = NoInfoAttr | InfoAttr "info option"

text \<open>
  One run of the function sees:
  \<^item> \<open>head_response\<close>: \<open>requests.head(url, ...)\<close> raises, or answers with or without
    a \<open>content-length\<close> header;
  \<^item> \<open>get_response\<close>: \<open>requests.get(url, ...)\<close> raises, or answers; the list is what
    the iterations of the loop over \<open>response.iter_content\<close> meet, in order: a chunk,
    or an exception (of the iterator or of \<open>temp_file.write\<close>) that ends the loop;
  \<^item> \<open>url_suffix\<close>: \<open>Path(urlparse(url).path).suffix\<close>;
  \<^item> \<open>named_temporary_file\<close>: \<open>tempfile.NamedTemporaryFile(delete=False, suffix=...)\<close>
    raises, or creates a file; the text is its name without the suffix;
  \<^item> \<open>mutagen\<close>: what each parser does with a file name and the bytes of that file;
  \<^item> \<open>files\<close>: the files that exist before the call, by path.
  \<open>os.path.exists\<close> and \<open>os.unlink\<close> act on the files and do not raise.
\<close>

record world =
  head_response :: "exn + string option"
  get_response :: "exn + (exn + bytes) list"
  url_suffix :: string
  named_temporary_file :: "exn + string"
  mutagen :: "parser \<Rightarrow> string \<Rightarrow> bytes \<Rightarrow> exn + audio option"
  files :: "string \<rightharpoonup> bytes"

type_synonym filesystem = "string \<rightharpoonup> bytes"

text \<open>\<open>str.lower()\<close> on ASCII letters.\<close>

definition lower_char :: "char \<Rightarrow> char" where
  "lower_char c =
     (case map_of (zip ''ABCDEFGHIJKLMNOPQRSTUVWXYZ'' ''abcdefghijklmnopqrstuvwxyz'') c of
        Some l \<Rightarrow> l
      | None \<Rightarrow> c)"

definition lower :: "string \<Rightarrow> string" where
  "lower s = map lower_char s"

section \<open>\<open>get_mp3_metadata\<close>\<close>

text \<open>
  Lines 20 and 21: the probe.  \<open>headers.get("content-length", 0)\<close> is the header text
  or the int 0, and \<open>int(...)\<close> is applied to it.
\<close>

definition probe :: "world \<Rightarrow> exn + int" where
  "probe w =
     (case head_response w of
        Inl e \<Rightarrow> Inl e
      | Inr header \<Rightarrow> py_int (case header of Some s \<Rightarrow> PyStr s | None \<Rightarrow> PyInt 0))"

text \<open>
  Lines 36 to 38: the loop that writes the chunks.  An empty chunk is skipped; an
  exception leaves the loop with what has been written so far.
\<close>

fun write_chunks :: "(exn + bytes) list \<Rightarrow> bytes \<Rightarrow> exn option \<times> bytes" where
  "write_chunks [] written = (None, written)"
| "write_chunks (Inl e # rest) written = (Some e, written)"
| "write_chunks (Inr chunk # rest) written =
     write_chunks rest (if chunk \<noteq> [] then written @ chunk else written)"

text \<open>
  Lines 20 to 39: probe, progress line (whose f-string divides), download into the
  temporary file.  The result is the exception raised, or \<open>total_size\<close>,
  \<open>file_extension\<close>, \<open>temp_path\<close> and the bytes written; with it, the files that
  exist at that point.  No handler or \<open>finally\<close> encloses the \<open>with\<close> block other
  than the outermost \<open>except\<close>, so a file created stays when the loop raises.
\<close>

definition fetch :: "world \<Rightarrow> (exn + int \<times> string \<times> string \<times> bytes) \<times> filesystem" where
  "fetch w =
     (case probe w of
        Inl e \<Rightarrow> (Inl e, files w)
      | Inr total_size \<Rightarrow>
     (case size_mb total_size of
        Inl e \<Rightarrow> (Inl e, files w)
      | Inr mb \<Rightarrow>
     (case get_response w of
        Inl e \<Rightarrow> (Inl e, files w)
      | Inr iterations \<Rightarrow>
     (let file_extension = lower (url_suffix w) in
      case named_temporary_file w of
        Inl e \<Rightarrow> (Inl e, files w)
      | Inr name \<Rightarrow>
          (let temp_path = name @ file_extension;
               (raised, written) = write_chunks iterations [];
               fs = (files w)(temp_path \<mapsto> written)
           in case raised of
                Some e \<Rightarrow> (Inl e, fs)
              | None \<Rightarrow> (Inr (total_size, file_extension, temp_path, written), fs))))))"

text \<open>Lines 44 to 55: the parser chosen from the extension.\<close>

definition dispatch :: "string \<Rightarrow> parser" where
  "dispatch file_extension =
     (if file_extension = ''.mp3'' then MP3
      else if file_extension \<in> set [''.m4a'', ''.mp4''] then MP4
      else if file_extension = ''.flac'' then FLAC
      else if file_extension = ''.ogg'' then OggVorbis
      else if file_extension = ''.wav'' then WAVE
      else File)"

text \<open>
  Lines 57 and 105 to 109:
  \<open>audio is not None and hasattr(audio, "info") and audio.info is not None\<close>, with the
  info it then reads.
\<close>

fun usable_info :: "audio option \<Rightarrow> info option" where
  "usable_info None = None"
| "usable_info (Some NoInfoAttr) = None"
| "usable_info (Some (InfoAttr None)) = None"
| "usable_info (Some (InfoAttr (Some i))) = Some i"

definition no_metadata_message :: string where
  "no_metadata_message =
     ''Could not extract metadata. The file may have non-standard formatting or may not be a valid audio file.''"

text \<open>Lines 42 to 145: the body of the inner \<open>try\<close>.\<close>

definition try_block :: "world \<Rightarrow> int \<Rightarrow> string \<Rightarrow> string \<Rightarrow> bytes \<Rightarrow> exn + dict" where
  "try_block w total_size file_extension temp_path content =
     (case mutagen w (dispatch file_extension) temp_path content of
        Inl e \<Rightarrow> Inl e
      | Inr audio \<Rightarrow>
          (case usable_info audio of
             Some i \<Rightarrow> report_primary total_size i
           | None \<Rightarrow>
               (case mutagen w File temp_path content of
                  Inl e \<Rightarrow> Inl e
                | Inr audio2 \<Rightarrow>
                    (case usable_info audio2 of
                       Some i \<Rightarrow> report_fallback total_size i
                     | None \<Rightarrow> Inr [''error'' \<mapsto> no_metadata_message]))))"

text \<open>
  Lines 146 to 157: the two handlers of the inner \<open>try\<close>.  The first one builds the
  degraded report (its f-string divides again); the second one takes every other
  exception.
\<close>

definition handlers :: "int \<Rightarrow> exn \<Rightarrow> exn + dict" where
  "handlers total_size e =
     (case e of
        HeaderNotFoundError m \<Rightarrow>
          (case size_mb total_size of
             Inl e' \<Rightarrow> Inl e'
           | Inr mb \<Rightarrow>
               Inr [''file_size'' \<mapsto> mb @ '' MB'',
                    ''duration'' \<mapsto> ''Unknown (headers not found)'',
                    ''channels'' \<mapsto> ''Unknown'',
                    ''sample_rate'' \<mapsto> ''Unknown'',
                    ''bitrate'' \<mapsto> ''Unknown''])
      | _ \<Rightarrow> Inr [''error'' \<mapsto> ''Error extracting metadata: '' @ str_exn e])"

text \<open>Lines 158 to 161: the \<open>finally\<close> clause.\<close>

definition cleanup :: "string \<Rightarrow> filesystem \<Rightarrow> filesystem" where
  "cleanup temp_path fs = (if temp_path \<in> dom fs then fs(temp_path := None) else fs)"

text \<open>Lines 41 to 161: the inner \<open>try\<close> statement.\<close>

definition inner_try ::
  "world \<Rightarrow> int \<Rightarrow> string \<Rightarrow> string \<Rightarrow> bytes \<Rightarrow> filesystem \<Rightarrow> (exn + dict) \<times> filesystem" where
  "inner_try w total_size file_extension temp_path content fs =
     (let outcome =
            (case try_block w total_size file_extension temp_path content of
               Inr r \<Rightarrow> Inr r
             | Inl e \<Rightarrow> handlers total_size e)
      in (outcome, cleanup temp_path fs))"

text \<open>
  Lines 18 to 164: the whole function.  The result is what the call does (returns a
  dict, or raises) and the files that exist afterwards.
\<close>

definition get_mp3_metadata :: "world \<Rightarrow> (exn + dict) \<times> filesystem" where
  "get_mp3_metadata w =
     (let (outcome, fs) =
            (case fetch w of
               (Inl e, fs) \<Rightarrow> (Inl e, fs)
             | (Inr (total_size, file_extension, temp_path, content), fs) \<Rightarrow>
                 inner_try w total_size file_extension temp_path content fs)
      in case outcome of
           Inl e \<Rightarrow> (Inr [''error'' \<mapsto> ''Error retrieving metadata: '' @ str_exn e], fs)
         | Inr r \<Rightarrow> (Inr r, fs))"

section \<open>Reading a result, and the inputs the examples use\<close>

text \<open>The text a returned dict holds under a key; nothing when the call raised.\<close>

definition report_field :: "exn + dict \<Rightarrow> string \<Rightarrow> string option" where
  "report_field outcome key = (case outcome of Inl e \<Rightarrow> None | Inr r \<Rightarrow> r key)"

definition metadata_keys :: "string set" where
  "metadata_keys = {''file_size'', ''duration'', ''channels'', ''sample_rate'', ''bitrate''}"

text \<open>
  The scenario of the specification: a URL ending in \<open>.mp3\<close>, a probe that reports
  5242880 bytes, and an MP3 parser that finds 185.4 s, two channels, 44100 Hz and
  192000 bit/s.
\<close>

definition example_info :: info where
  "example_info =
     \<lparr>length_attr = Some (1854 / 10), channels_attr = Some 2,
      sample_rate_attr = Some 44100, bitrate_attr = Some 192000\<rparr>"

definition example_world :: world where
  "example_world =
     \<lparr>head_response = Inr (Some ''5242880''),
      get_response = Inr [Inr ''ID3'', Inr [], Inr ''frames''],
      url_suffix = ''.mp3'',
      named_temporary_file = Inr ''/tmp/tmpk3v9'',
      mutagen = (\<lambda>p path content.
         if p = MP3 then Inr (Some (InfoAttr (Some example_info))) else Inr None),
      files = Map.empty\<rparr>"

text \<open>An info object that has a length and nothing else, as a MIDI file gives.\<close>

definition length_only_info :: info where
  "length_only_info =
     \<lparr>length_attr = Some 1, channels_attr = None, sample_rate_attr = None, bitrate_attr = None\<rparr>"

text \<open>An info object with a bitrate of 500 bit/s.\<close>

definition low_bitrate_info :: info where
  "low_bitrate_info =
     \<lparr>length_attr = Some 1, channels_attr = Some 1, sample_rate_attr = Some 8000,
      bitrate_attr = Some 500\<rparr>"

section \<open>Facts about the formatting functions\<close>

lemma str_nat_digit: "n < 10 \<Longrightarrow> str_nat n = [digit_char n]"
  by (simp add: str_nat.simps)




lemma size_mb_0: "size_mb 0 = Inr ''0.00''"
  by (simp add: size_mb_def true_div_mb_def round_half_even_def str_nat_digit digit_char_def)

lemma size_mb_5242880: "size_mb 5242880 = Inr ''5.00''"
  by (simp add: size_mb_def true_div_mb_def round_half_even_def str_nat_digit digit_char_def
      Let_def)


lemma floor_rat_numeral: "\<lfloor>numeral a / numeral b :: rat\<rfloor> = numeral a div numeral b"
  by (metis floor_divide_of_int_eq of_int_numeral)





section \<open>Facts about the two report blocks\<close>

text \<open>The block of the second attempt builds the dict the block of the first one builds.\<close>

lemma report_fallback_eq: "report_fallback total_size i = report_primary total_size i"
  by (simp add: report_fallback_def report_primary_def)

lemma report_primary_size:
  assumes "report_primary total_size i = Inr r"
  shows "\<exists>mb. size_mb total_size = Inr mb \<and> r ''file_size'' = Some (mb @ '' MB'')"
  using assms by (auto simp: report_primary_def Let_def split: sum.splits)


lemma report_primary_channels:
  assumes "report_primary total_size i = Inr r"
  shows "r ''channels'' =
           Some (case channels_attr i of
                   Some n \<Rightarrow> if n = 1 then ''Mono'' else if n = 2 then ''Stereo''
                             else str_int n @ '' channels''
                 | None \<Rightarrow> ''Unknown channels'')"
  using assms
  by (cases "channels_attr i")
     (auto simp: report_primary_def Let_def getattr_default_def split: sum.splits)

lemma report_primary_sample_rate:
  assumes "report_primary total_size i = Inr r"
  shows "r ''sample_rate'' =
           Some (case sample_rate_attr i of
                   Some n \<Rightarrow> str_int n @ '' Hz'' | None \<Rightarrow> ''Unknown'')"
  using assms
  by (cases "sample_rate_attr i")
     (auto simp: report_primary_def Let_def getattr_default_def split: sum.splits)

lemma report_primary_bitrate:
  assumes "report_primary total_size i = Inr r"
  shows "r ''bitrate'' =
           Some (case bitrate_attr i of
                   Some b \<Rightarrow> if b div 1000 \<noteq> 0 then str_int (b div 1000) @ '' kbps''
                             else ''Unknown''
                 | None \<Rightarrow> ''Unknown'')"
  using assms
  by (cases "bitrate_attr i")
     (auto simp: report_primary_def Let_def split: sum.splits)

lemma report_primary_dom:
  assumes "report_primary total_size i = Inr r"
  shows "dom r = metadata_keys"
proof -
  from assms obtain mb d c s b where
    "r = [''file_size'' \<mapsto> mb, ''duration'' \<mapsto> d, ''channels'' \<mapsto> c,
          ''sample_rate'' \<mapsto> s, ''bitrate'' \<mapsto> b]"
    by (auto simp: report_primary_def Let_def split: sum.splits)
  then show ?thesis
    by (auto simp: metadata_keys_def)
qed

lemma report_primary_no_error:
  assumes "report_primary total_size i = Inr r"
  shows "r ''error'' = None"
proof -
  have "''error'' \<notin> dom r"
    by (simp add: report_primary_dom [OF assms] metadata_keys_def)
  then show ?thesis
    by (simp add: domIff)
qed

text \<open>Without a \<open>channels\<close> attribute, both blocks say "Unknown channels".\<close>

lemma absent_channels_general:
  assumes "report_primary total_size i = Inr r \<or> report_fallback total_size i = Inr r"
    and "channels_attr i = None"
  shows "r ''channels'' = Some ''Unknown channels''"
proof -
  have "report_primary total_size i = Inr r"
    using assms(1) by (simp add: report_fallback_eq)
  then have "r ''channels'' =
           Some (case channels_attr i of
                   Some n \<Rightarrow> if n = 1 then ''Mono'' else if n = 2 then ''Stereo''
                             else str_int n @ '' channels''
                 | None \<Rightarrow> ''Unknown channels'')"
    by (rule report_primary_channels)
  then show ?thesis
    by (simp add: assms(2))
qed

lemma report_primary_Inl:
  "report_primary total_size i = Inl e \<longleftrightarrow> size_mb total_size = Inl e"
  by (auto simp: report_primary_def Let_def split: sum.splits)

lemma report_primary_total:
  "size_mb total_size = Inr mb \<Longrightarrow> \<exists>r. report_primary total_size i = Inr r"
  by (simp add: report_primary_def Let_def)

lemma either_block:
  "report_primary total_size i = Inr r \<or> report_fallback total_size i = Inr r
     \<Longrightarrow> report_primary total_size i = Inr r"
  by (simp add: report_fallback_eq)

section \<open>The field rules\<close>

text \<open>
  C1, as amended.  Bitrate normalization: for every structural info whose bitrate field
  is absent, or is an integer from 0 to 999, the report's bitrate is "Unknown"; for
  every structural info with a bitrate \<open>b\<close> of 1000 or more, the report's bitrate is
  \<open>floor(b / 1000)\<close> followed by " kbps".  This holds for the report of the first
  attempt and for the report of the second attempt.
\<close>

theorem bitrate_normalization:
  assumes "report_primary total_size i = Inr r \<or> report_fallback total_size i = Inr r"
  shows "(bitrate_attr i = None \<longrightarrow> r ''bitrate'' = Some ''Unknown'')
       \<and> (\<forall>b. bitrate_attr i = Some b \<and> 0 \<le> b \<and> b < 1000 \<longrightarrow>
              r ''bitrate'' = Some ''Unknown'')
       \<and> (\<forall>b. bitrate_attr i = Some b \<and> 1000 \<le> b \<longrightarrow>
              r ''bitrate'' = Some (str_int (b div 1000) @ '' kbps''))"
proof -
  have r: "report_primary total_size i = Inr r"
    using assms by (rule either_block)
  have small: "b div 1000 = 0" if "0 \<le> b" "b < 1000" for b :: int
    using that by simp
  have large: "b div 1000 \<noteq> 0" if "1000 \<le> b" for b :: int
  proof -
    have "1 \<le> b div 1000"
      using that by (simp add: pos_le_divide_eq zdiv_mono1 [of 1000 b 1000, simplified])
    then show ?thesis by simp
  qed
  show ?thesis
    using report_primary_bitrate [OF r] small large by auto
qed

text \<open>
  The amended rule at three inputs: a bitrate of 192000, a bitrate of 500 (in the second
  attempt's block) and an info object without a bitrate.
\<close>

theorem bitrate_normalization_witness:
  "report_field (report_primary 5242880 example_info) ''bitrate'' = Some ''192 kbps''
   \<and> report_field (report_fallback 0 low_bitrate_info) ''bitrate'' = Some ''Unknown''
   \<and> report_field (report_primary 0 length_only_info) ''bitrate'' = Some ''Unknown''"
proof -
  obtain r1 where r1: "report_primary 5242880 example_info = Inr r1"
    using report_primary_total [OF size_mb_5242880] by blast
  obtain r2 where r2: "report_primary 0 low_bitrate_info = Inr r2"
    using report_primary_total [OF size_mb_0] by blast
  obtain r3 where r3: "report_primary 0 length_only_info = Inr r3"
    using report_primary_total [OF size_mb_0] by blast
  have r2': "report_fallback 0 low_bitrate_info = Inr r2"
    using r2 by (simp add: report_fallback_eq)
  have "r1 ''bitrate'' = Some (str_int (192000 div 1000) @ '' kbps'')"
    using bitrate_normalization [of 5242880 example_info r1] r1
    by (simp add: example_info_def)
  moreover have "r2 ''bitrate'' = Some ''Unknown''"
    using bitrate_normalization [of 0 low_bitrate_info r2] r2'
    by (simp add: low_bitrate_info_def)
  moreover have "r3 ''bitrate'' = Some ''Unknown''"
    using bitrate_normalization [of 0 length_only_info r3] r3
    by (simp add: length_only_info_def)
  ultimately show ?thesis
    using r1 r2' r3
    by (simp add: report_field_def str_int_def str_nat.simps digit_char_def)
qed

text \<open>
  C1 as stated fails: a bitrate of 500 is positive, and its report says "Unknown", not
  \<open>floor(500 / 1000)\<close> followed by " kbps", which is "0 kbps".
\<close>

theorem bitrate_below_1000_counterexample:
  "bitrate_attr low_bitrate_info = Some 500 \<and> (0::int) < 500
   \<and> str_int (500 div 1000) @ '' kbps'' = ''0 kbps''
   \<and> report_field (report_primary 0 low_bitrate_info) ''bitrate'' = Some ''Unknown''
   \<and> report_field (report_primary 0 low_bitrate_info) ''bitrate''
        \<noteq> Some (str_int (500 div 1000) @ '' kbps'')"
  by (simp add: low_bitrate_info_def report_field_def report_primary_def size_mb_0 Let_def
      str_int_def str_nat_digit digit_char_def)

text \<open>
  C2.  Channel normalization says that an absent channel count yields exactly "Unknown".
  The code gives "Unknown channels": \<open>getattr(info, "channels", "Unknown")\<close> is
  neither 1 nor 2, so the default text goes through \<open>f"{channels} channels"\<close>.  The
  sample rate, read the same way, is compared with "Unknown" before it is formatted.
\<close>

theorem absent_channels_text:
  "channels_attr length_only_info = None
   \<and> report_field (report_primary 0 length_only_info) ''channels'' = Some ''Unknown channels''
   \<and> report_field (report_fallback 0 length_only_info) ''channels'' = Some ''Unknown channels''
   \<and> report_field (report_primary 0 length_only_info) ''sample_rate'' = Some ''Unknown''"
  by (simp add: length_only_info_def report_field_def report_primary_def report_fallback_def
      size_mb_0 Let_def getattr_default_def)

text \<open>
  The rest of the channel rule holds: 1 gives "Mono", 2 gives "Stereo", and any other
  integer \<open>n\<close> gives \<open>n\<close> followed by " channels".
\<close>

lemma present_channels_text:
  assumes "report_primary total_size i = Inr r \<or> report_fallback total_size i = Inr r"
    and "channels_attr i = Some n"
  shows "r ''channels'' =
           Some (if n = 1 then ''Mono'' else if n = 2 then ''Stereo''
                 else str_int n @ '' channels'')"
  using report_primary_channels [OF either_block [OF assms(1)]] assms(2) by simp



text \<open>
  C7.  Format dispatch: \<open>.mp3\<close> selects the MP3 parser, \<open>.m4a\<close> and \<open>.mp4\<close> select
  the MP4 parser, \<open>.flac\<close> selects the FLAC parser, \<open>.ogg\<close> selects the OggVorbis
  parser, \<open>.wav\<close> selects the WAV parser, and every other extension, the empty one
  included, selects the generic parser \<open>File\<close>.
\<close>

theorem format_dispatch:
  "dispatch ''.mp3'' = MP3 \<and> dispatch ''.m4a'' = MP4 \<and> dispatch ''.mp4'' = MP4
   \<and> dispatch ''.flac'' = FLAC \<and> dispatch ''.ogg'' = OggVorbis \<and> dispatch ''.wav'' = WAVE
   \<and> (file_extension \<notin> {''.mp3'', ''.m4a'', ''.mp4'', ''.flac'', ''.ogg'', ''.wav''} \<longrightarrow>
        dispatch file_extension = File)"
  by (simp add: dispatch_def)

text \<open>The catch-all at a missing extension and at an extension that is not in the table.\<close>

theorem format_dispatch_witness:
  "dispatch [] = File \<and> dispatch ''.aac'' = File \<and> dispatch (lower ''.MP3'') = MP3"
proof -
  have "dispatch [] = File"
    using format_dispatch [of "[]"] by simp
  moreover have "dispatch ''.aac'' = File"
    using format_dispatch [of "''.aac''"] by simp
  moreover have "dispatch (lower ''.MP3'') = MP3"
    using format_dispatch [of "[]"] by (simp add: lower_def lower_char_def)
  ultimately show ?thesis by simp
qed

section \<open>Facts about the run\<close>

lemma fetch_Inr:
  assumes "fetch w = (Inr (total_size, file_extension, temp_path, content), fs)"
  shows "probe w = Inr total_size"
    and "\<exists>mb. size_mb total_size = Inr mb"
    and "fs temp_path = Some content"
    and "file_extension = lower (url_suffix w)"
    and "\<forall>q. q \<noteq> temp_path \<longrightarrow> fs q = files w q"
  using assms
  by (auto simp: fetch_def Let_def split: sum.splits prod.splits option.splits)

lemma fetch_Inl_probe:
  "probe w = Inl e \<Longrightarrow> fetch w = (Inl e, files w)"
  by (simp add: fetch_def)

text \<open>Once the download is done, the call is the inner \<open>try\<close> statement.\<close>

lemma run_after_fetch:
  assumes "fetch w = (Inr (total_size, file_extension, temp_path, content), fs)"
  shows "get_mp3_metadata w =
           (case (case try_block w total_size file_extension temp_path content of
                    Inr r \<Rightarrow> Inr r
                  | Inl e \<Rightarrow> handlers total_size e) of
              Inl e \<Rightarrow> (Inr [''error'' \<mapsto> ''Error retrieving metadata: '' @ str_exn e],
                         cleanup temp_path fs)
            | Inr r \<Rightarrow> (Inr r, cleanup temp_path fs))"
  by (simp add: get_mp3_metadata_def inner_try_def assms Let_def)

lemma run_fetch_failed:
  assumes "fetch w = (Inl e, fs)"
  shows "get_mp3_metadata w = (Inr [''error'' \<mapsto> ''Error retrieving metadata: '' @ str_exn e], fs)"
  by (simp add: get_mp3_metadata_def assms)

lemma handlers_header_not_found:
  assumes "size_mb total_size = Inr mb"
  shows "handlers total_size (HeaderNotFoundError m) =
           Inr [''file_size'' \<mapsto> mb @ '' MB'',
                ''duration'' \<mapsto> ''Unknown (headers not found)'',
                ''channels'' \<mapsto> ''Unknown'',
                ''sample_rate'' \<mapsto> ''Unknown'',
                ''bitrate'' \<mapsto> ''Unknown'']"
  by (simp add: handlers_def assms)

lemma handlers_other:
  assumes "\<forall>m. e \<noteq> HeaderNotFoundError m"
  shows "handlers total_size e = Inr [''error'' \<mapsto> ''Error extracting metadata: '' @ str_exn e]"
  using assms by (cases e) (simp_all add: handlers_def)

lemma try_block_primary_raises:
  assumes "mutagen w (dispatch file_extension) temp_path content = Inl e"
  shows "try_block w total_size file_extension temp_path content = Inl e"
  by (simp add: try_block_def assms)

lemma try_block_primary_usable:
  assumes "mutagen w (dispatch file_extension) temp_path content = Inr audio"
    and "usable_info audio = Some i"
  shows "try_block w total_size file_extension temp_path content = report_primary total_size i"
  by (simp add: try_block_def assms)

lemma try_block_fallback_raises:
  assumes "mutagen w (dispatch file_extension) temp_path content = Inr audio"
    and "usable_info audio = None"
    and "mutagen w File temp_path content = Inl e"
  shows "try_block w total_size file_extension temp_path content = Inl e"
  by (simp add: try_block_def assms)

lemma try_block_fallback_usable:
  assumes "mutagen w (dispatch file_extension) temp_path content = Inr audio"
    and "usable_info audio = None"
    and "mutagen w File temp_path content = Inr audio2"
    and "usable_info audio2 = Some i"
  shows "try_block w total_size file_extension temp_path content = report_fallback total_size i"
  by (simp add: try_block_def assms)

text \<open>What the inner \<open>try\<close> block can return: a report of one of the two blocks, or the
  error dict of lines 143 to 145.\<close>

lemma try_block_Inr:
  assumes "try_block w total_size file_extension temp_path content = Inr r"
  shows "(\<exists>i. report_primary total_size i = Inr r) \<or> r = [''error'' \<mapsto> no_metadata_message]"
  using assms
  by (auto simp: try_block_def report_fallback_eq split: sum.splits option.splits)

lemma handlers_Inr:
  assumes "size_mb total_size = Inr mb"
  shows "handlers total_size e =
           Inr [''file_size'' \<mapsto> mb @ '' MB'',
                ''duration'' \<mapsto> ''Unknown (headers not found)'',
                ''channels'' \<mapsto> ''Unknown'',
                ''sample_rate'' \<mapsto> ''Unknown'',
                ''bitrate'' \<mapsto> ''Unknown'']
         \<or> handlers total_size e = Inr [''error'' \<mapsto> ''Error extracting metadata: '' @ str_exn e]"
  by (cases e) (simp_all add: handlers_def assms)

text \<open>
  A call whose download is done returns one of four dicts: a report of the info found,
  the degraded report, or one of two error dicts.
\<close>

lemma run_after_fetch_cases:
  assumes "fetch w = (Inr (total_size, file_extension, temp_path, content), fs)"
  obtains (report) i r where "report_primary total_size i = Inr r"
      and "fst (get_mp3_metadata w) = Inr r"
    | (degraded) mb where "size_mb total_size = Inr mb"
      and "fst (get_mp3_metadata w) =
             Inr [''file_size'' \<mapsto> mb @ '' MB'',
                  ''duration'' \<mapsto> ''Unknown (headers not found)'',
                  ''channels'' \<mapsto> ''Unknown'',
                  ''sample_rate'' \<mapsto> ''Unknown'',
                  ''bitrate'' \<mapsto> ''Unknown'']"
    | (error) m where "fst (get_mp3_metadata w) = Inr [''error'' \<mapsto> m]"
proof -
  obtain mb where mb: "size_mb total_size = Inr mb"
    using fetch_Inr(2) [OF assms] by blast
  note run = run_after_fetch [OF assms]
  show thesis
  proof (cases "try_block w total_size file_extension temp_path content")
    case (Inr r)
    then have res: "fst (get_mp3_metadata w) = Inr r"
      using run by simp
    from try_block_Inr [OF Inr] show thesis
    proof
      assume "\<exists>i. report_primary total_size i = Inr r"
      then show thesis using res report by blast
    next
      assume "r = [''error'' \<mapsto> no_metadata_message]"
      then show thesis using res error by blast
    qed
  next
    case (Inl e)
    from handlers_Inr [OF mb, of e] show thesis
    proof
      assume h: "handlers total_size e =
           Inr [''file_size'' \<mapsto> mb @ '' MB'',
                ''duration'' \<mapsto> ''Unknown (headers not found)'',
                ''channels'' \<mapsto> ''Unknown'',
                ''sample_rate'' \<mapsto> ''Unknown'',
                ''bitrate'' \<mapsto> ''Unknown'']"
      show thesis
        by (rule degraded [OF mb]) (simp add: run Inl h)
    next
      assume h: "handlers total_size e =
           Inr [''error'' \<mapsto> ''Error extracting metadata: '' @ str_exn e]"
      show thesis
        by (rule error [of "''Error extracting metadata: '' @ str_exn e"]) (simp add: run Inl h)
    qed
  qed
qed

text \<open>A dict without the key \<open>error\<close> that the call returns holds the size of the probe.\<close>

lemma report_holds_probe_size:
  assumes "fst (get_mp3_metadata w) = Inr r" and "r ''error'' = None"
  shows "\<exists>total_size mb. probe w = Inr total_size \<and> size_mb total_size = Inr mb
           \<and> r ''file_size'' = Some (mb @ '' MB'')"
proof (cases "fetch w")
  case (Pair outcome fs)
  show ?thesis
  proof (cases outcome)
    case (Inl e)
    then show ?thesis
      using assms run_fetch_failed [of w e fs] Pair by auto
  next
    case (Inr fetched)
    obtain total_size file_extension temp_path content
      where f: "fetch w = (Inr (total_size, file_extension, temp_path, content), fs)"
      using Pair Inr by (cases fetched) auto
    note p = fetch_Inr(1) [OF f]
    from f show ?thesis
    proof (cases rule: run_after_fetch_cases)
      case (report i r')
      then have "report_primary total_size i = Inr r"
        using assms by simp
      then show ?thesis
        using report_primary_size p by blast
    next
      case (degraded mb)
      then show ?thesis
        using assms p by auto
    next
      case (error m)
      then show ?thesis
        using assms by auto
    qed
  qed
qed

text \<open>After a download that is done, the temporary file is gone and no other file changed.\<close>

lemma temp_file_removed_after_download:
  assumes "fetch w = (Inr (total_size, file_extension, temp_path, content), fs)"
  shows "snd (get_mp3_metadata w) temp_path = None"
    and "\<forall>q. q \<noteq> temp_path \<longrightarrow> snd (get_mp3_metadata w) q = files w q"
proof -
  have s: "snd (get_mp3_metadata w) = cleanup temp_path fs"
    by (simp add: run_after_fetch [OF assms] split: sum.splits)
  show "snd (get_mp3_metadata w) temp_path = None"
    using fetch_Inr(3) [OF assms] by (simp add: s cleanup_def dom_def)
  show "\<forall>q. q \<noteq> temp_path \<longrightarrow> snd (get_mp3_metadata w) q = files w q"
    using fetch_Inr(5) [OF assms] by (simp add: s cleanup_def)
qed

text \<open>
  When the loop that writes the chunks raises, the call returns the error dict of the
  outermost handler and the temporary file stays, with what was written.
\<close>

lemma temp_file_stays_when_loop_raises:
  assumes "probe w = Inr total_size" and "size_mb total_size = Inr mb"
    and "get_response w = Inr iterations" and "named_temporary_file w = Inr name"
    and "write_chunks iterations [] = (Some e, written)"
  shows "get_mp3_metadata w =
           (Inr [''error'' \<mapsto> ''Error retrieving metadata: '' @ str_exn e],
            (files w)(name @ lower (url_suffix w) \<mapsto> written))"
proof -
  have "fetch w = (Inl e, (files w)(name @ lower (url_suffix w) \<mapsto> written))"
    by (simp add: fetch_def assms Let_def)
  then show ?thesis
    by (rule run_fetch_failed)
qed

text \<open>Two inputs that differ in nothing the download reads are downloaded alike.\<close>

lemma fetch_same_probe:
  assumes "probe w' = probe w" and "get_response w' = get_response w"
    and "url_suffix w' = url_suffix w" and "named_temporary_file w' = named_temporary_file w"
    and "files w' = files w"
  shows "fetch w' = fetch w"
  unfolding fetch_def assms ..

lemma run_same:
  assumes "fetch w' = fetch w" and "mutagen w' = mutagen w"
  shows "get_mp3_metadata w' = get_mp3_metadata w"
proof -
  have t: "try_block w' = try_block w"
    unfolding try_block_def assms(2) ..
  have i: "inner_try w' = inner_try w"
    unfolding inner_try_def t ..
  show ?thesis
    unfolding get_mp3_metadata_def assms(1) i ..
qed

subsection \<open>The example inputs, evaluated\<close>

lemma int_literal_5242880: "int_literal ''5242880'' = Literal 5242880"
  by (simp add: int_literal_def strip_def is_space_def unsigned_literal_def is_digit_def
      digit_val_def)

lemma int_literal_0: "int_literal ''0'' = Literal 0"
  by (simp add: int_literal_def strip_def is_space_def unsigned_literal_def is_digit_def
      digit_val_def)

lemma int_literal_abc: "int_literal ''abc'' = NotLiteral"
  by (simp add: int_literal_def strip_def is_space_def unsigned_literal_def is_digit_def)

lemma lower_mp3: "lower ''.mp3'' = ''.mp3''"
  by (simp add: lower_def lower_char_def)

lemma fetch_example_world:
  "fetch example_world =
     (Inr (5242880, ''.mp3'', ''/tmp/tmpk3v9.mp3'', ''ID3frames''),
      [''/tmp/tmpk3v9.mp3'' \<mapsto> ''ID3frames''])"
  by (simp add: fetch_def probe_def example_world_def int_literal_5242880 size_mb_5242880
      lower_mp3 Let_def)

lemma fetch_other_parsers:
  "fetch (w\<lparr>mutagen := parsers\<rparr>) = fetch w"
  by (simp add: fetch_def probe_def Let_def split: sum.splits prod.splits option.splits)

lemma fetch_example_no_header:
  "fetch (example_world\<lparr>head_response := Inr None\<rparr>) =
     (Inr (0, ''.mp3'', ''/tmp/tmpk3v9.mp3'', ''ID3frames''),
      [''/tmp/tmpk3v9.mp3'' \<mapsto> ''ID3frames''])"
  by (simp add: fetch_def probe_def example_world_def size_mb_0 lower_mp3 Let_def)

lemma fetch_example_no_suffix:
  "fetch (example_world\<lparr>url_suffix := [], mutagen := parsers\<rparr>) =
     (Inr (5242880, [], ''/tmp/tmpk3v9'', ''ID3frames''),
      [''/tmp/tmpk3v9'' \<mapsto> ''ID3frames''])"
  by (simp add: fetch_def probe_def example_world_def int_literal_5242880 size_mb_5242880
      lower_def Let_def)

lemma dispatch_mp3: "dispatch ''.mp3'' = MP3"
  by (simp add: dispatch_def)

lemma dispatch_no_suffix: "dispatch [] = File"
  by (simp add: dispatch_def)

lemma report_example:
  "report_primary 5242880 example_info =
     Inr [''file_size'' \<mapsto> ''5.00 MB'', ''duration'' \<mapsto> ''3:05'', ''channels'' \<mapsto> ''Stereo'',
          ''sample_rate'' \<mapsto> ''44100 Hz'', ''bitrate'' \<mapsto> ''192 kbps'']"
proof -
  have "py_divmod (1854 / 10) 60 = (3, 54 / 10)"
    by (simp add: py_divmod_def floor_rat_numeral)
  moreover have "int_of_float 3 = 3" and "int_of_float (54 / 10) = 5"
    by (simp_all add: int_of_float_def floor_rat_numeral)
  ultimately show ?thesis
    by (simp add: report_primary_def example_info_def size_mb_5242880 getattr_default_def
        str_int_def fmt_02d_def str_nat.simps digit_char_def)
qed

text \<open>
  The scenario end to end: the report of the specification, and no temporary file left.
\<close>

lemma scenario_report:
  "get_mp3_metadata example_world =
     (Inr [''file_size'' \<mapsto> ''5.00 MB'', ''duration'' \<mapsto> ''3:05'', ''channels'' \<mapsto> ''Stereo'',
           ''sample_rate'' \<mapsto> ''44100 Hz'', ''bitrate'' \<mapsto> ''192 kbps''],
      Map.empty)"
proof -
  have "mutagen example_world (dispatch ''.mp3'') ''/tmp/tmpk3v9.mp3'' ''ID3frames''
          = Inr (Some (InfoAttr (Some example_info)))"
    by (simp add: example_world_def dispatch_mp3)
  then have "try_block example_world 5242880 ''.mp3'' ''/tmp/tmpk3v9.mp3'' ''ID3frames''
          = report_primary 5242880 example_info"
    by (rule try_block_primary_usable) simp
  then show ?thesis
    by (simp add: run_after_fetch [OF fetch_example_world] report_example cleanup_def)
qed

section \<open>The probe\<close>

text \<open>
  C3, as amended.  For every probe response whose size header is absent, the operation
  takes the total size to be 0 and proceeds: the call does what it does for a header
  "0", and a report it returns has the file size "0.00 MB".  A size header that is
  present and on which \<open>int\<close> raises (it is not an integer literal) makes the call
  return an error dict ("Error retrieving metadata: " and the text of the exception),
  before anything is downloaded.
\<close>

theorem absent_size_header:
  "(head_response w = Inr None \<longrightarrow>
      probe w = Inr 0 \<and> size_mb 0 = Inr ''0.00''
      \<and> get_mp3_metadata w = get_mp3_metadata (w\<lparr>head_response := Inr (Some ''0'')\<rparr>)
      \<and> (\<forall>r. fst (get_mp3_metadata w) = Inr r \<and> r ''error'' = None \<longrightarrow>
             r ''file_size'' = Some ''0.00 MB''))
   \<and> (\<forall>s e. head_response w = Inr (Some s) \<and> py_int (PyStr s) = Inl e \<longrightarrow>
          get_mp3_metadata w =
            (Inr [''error'' \<mapsto> ''Error retrieving metadata: '' @ str_exn e], files w))"
proof (intro conjI impI allI)
  assume h: "head_response w = Inr None"
  show p: "probe w = Inr 0"
    by (simp add: probe_def h)
  show "size_mb 0 = Inr ''0.00''"
    by (rule size_mb_0)
  have "probe (w\<lparr>head_response := Inr (Some ''0'')\<rparr>) = probe w"
    by (simp add: probe_def h int_literal_0)
  then have "fetch (w\<lparr>head_response := Inr (Some ''0'')\<rparr>) = fetch w"
    by (rule fetch_same_probe) simp_all
  then show "get_mp3_metadata w = get_mp3_metadata (w\<lparr>head_response := Inr (Some ''0'')\<rparr>)"
    by (rule run_same [symmetric]) simp
  fix r
  assume "fst (get_mp3_metadata w) = Inr r \<and> r ''error'' = None"
  then obtain total_size mb where "probe w = Inr total_size" "size_mb total_size = Inr mb"
    and "r ''file_size'' = Some (mb @ '' MB'')"
    using report_holds_probe_size by blast
  then show "r ''file_size'' = Some ''0.00 MB''"
    using p size_mb_0 by simp
next
  fix s e
  assume "head_response w = Inr (Some s) \<and> py_int (PyStr s) = Inl e"
  then have "probe w = Inl e"
    by (simp add: probe_def)
  then show "get_mp3_metadata w =
               (Inr [''error'' \<mapsto> ''Error retrieving metadata: '' @ str_exn e], files w)"
    by (rule run_fetch_failed [OF fetch_Inl_probe])
qed

text \<open>
  The amended claim at the scenario without a size header, where the report says
  "0.00 MB", and with the header "12 bytes".
\<close>

theorem absent_size_header_witness:
  "report_field (fst (get_mp3_metadata (example_world\<lparr>head_response := Inr None\<rparr>)))
     ''file_size'' = Some ''0.00 MB''
   \<and> report_field (fst (get_mp3_metadata (example_world\<lparr>head_response := Inr None\<rparr>)))
     ''error'' = None
   \<and> get_mp3_metadata (example_world\<lparr>head_response := Inr None\<rparr>) =
       get_mp3_metadata (example_world\<lparr>head_response := Inr (Some ''0'')\<rparr>)
   \<and> get_mp3_metadata (example_world\<lparr>head_response := Inr (Some ''12 bytes'')\<rparr>) =
       (Inr [''error'' \<mapsto>
               ''Error retrieving metadata: invalid literal for int() with base 10: ''
               @ [CHR 0x27] @ ''12 bytes'' @ [CHR 0x27]],
        Map.empty)"
proof -
  let ?w = "example_world\<lparr>head_response := Inr None\<rparr>"
  let ?v = "example_world\<lparr>head_response := Inr (Some ''12 bytes'')\<rparr>"
  let ?e = "ValueError (''invalid literal for int() with base 10: ''
                        @ [CHR 0x27] @ ''12 bytes'' @ [CHR 0x27])"
  have "mutagen ?w (dispatch ''.mp3'') ''/tmp/tmpk3v9.mp3'' ''ID3frames''
          = Inr (Some (InfoAttr (Some example_info)))"
    by (simp add: example_world_def dispatch_mp3)
  then have "try_block ?w 0 ''.mp3'' ''/tmp/tmpk3v9.mp3'' ''ID3frames''
          = report_primary 0 example_info"
    by (rule try_block_primary_usable) simp
  moreover obtain r where r: "report_primary 0 example_info = Inr r"
    using report_primary_total [OF size_mb_0] by blast
  ultimately have res: "fst (get_mp3_metadata ?w) = Inr r"
    by (simp add: run_after_fetch [OF fetch_example_no_header])
  have no_error: "r ''error'' = None"
    using r by (rule report_primary_no_error)
  have hw: "head_response ?w = Inr None"
    by simp
  have "int_literal ''12 bytes'' = NotLiteral"
    by (simp add: int_literal_def strip_def is_space_def unsigned_literal_def is_digit_def
        digit_val_def)
  then have hv: "head_response ?v = Inr (Some ''12 bytes'') \<and> py_int (PyStr ''12 bytes'') = Inl ?e"
    by simp
  have fv: "files ?v = Map.empty"
    by (simp add: example_world_def)
  note absent = absent_size_header [of ?w, THEN conjunct1, THEN mp, OF hw]
  note malformed = absent_size_header [of ?v, THEN conjunct2, THEN spec, THEN spec, THEN mp, OF hv]
  have size: "r ''file_size'' = Some ''0.00 MB''"
    using absent [THEN conjunct2, THEN conjunct2, THEN conjunct2, THEN spec, THEN mp,
        OF conjI [OF res no_error]] .
  have same: "get_mp3_metadata ?w = get_mp3_metadata (?w\<lparr>head_response := Inr (Some ''0'')\<rparr>)"
    using absent [THEN conjunct2, THEN conjunct2, THEN conjunct1] .
  have bad: "get_mp3_metadata ?v =
               (Inr [''error'' \<mapsto> ''Error retrieving metadata: '' @ str_exn ?e], files ?v)"
    using malformed .
  have "report_field (fst (get_mp3_metadata ?w)) ''file_size'' = Some ''0.00 MB''"
    and "report_field (fst (get_mp3_metadata ?w)) ''error'' = None"
    using res size no_error by (simp_all add: report_field_def)
  moreover have "get_mp3_metadata ?w
                   = get_mp3_metadata (example_world\<lparr>head_response := Inr (Some ''0'')\<rparr>)"
    using same by simp
  moreover have "get_mp3_metadata ?v =
                   (Inr [''error'' \<mapsto>
                           ''Error retrieving metadata: invalid literal for int() with base 10: ''
                           @ [CHR 0x27] @ ''12 bytes'' @ [CHR 0x27]],
                    Map.empty)"
    using bad by (simp add: fv)
  ultimately show ?thesis
    by blast
qed

text \<open>
  C3 as stated fails for a malformed header: with the size header "abc", which is not
  an integer literal, the call returns the error dict of the outermost handler, and
  no report with the file size "0.00 MB".
\<close>

theorem malformed_size_header_counterexample:
  "int_literal ''abc'' = NotLiteral
   \<and> fst (get_mp3_metadata (example_world\<lparr>head_response := Inr (Some ''abc'')\<rparr>)) =
       Inr [''error'' \<mapsto>
              ''Error retrieving metadata: invalid literal for int() with base 10: ''
              @ [CHR 0x27] @ ''abc'' @ [CHR 0x27]]
   \<and> report_field (fst (get_mp3_metadata (example_world\<lparr>head_response := Inr (Some ''abc'')\<rparr>)))
        ''file_size'' \<noteq> Some ''0.00 MB''"
  by (simp add: get_mp3_metadata_def fetch_def probe_def example_world_def int_literal_abc
      report_field_def)

section \<open>The temporary file\<close>

text \<open>
  C4.  The claim says that a temporary file that was created is removed on every exit
  path, failures while the download is streamed into the file included.  The
  \<open>try ... finally\<close> that unlinks the file starts at line 41, after the \<open>with\<close> block
  that writes it: when the loop over the response raises after the first chunk, the
  call returns the error dict and the file, which did not exist before, stays with the
  bytes written so far.
\<close>

theorem streaming_failure_keeps_temp_file:
  "files example_world ''/tmp/tmpk3v9.mp3'' = None
   \<and> get_mp3_metadata
        (example_world\<lparr>get_response :=
           Inr [Inr ''ID3'', Inl (OtherException ''Connection reset by peer'')]\<rparr>) =
       (Inr [''error'' \<mapsto> ''Error retrieving metadata: Connection reset by peer''],
        [''/tmp/tmpk3v9.mp3'' \<mapsto> ''ID3''])"
  by (simp add: get_mp3_metadata_def fetch_def probe_def example_world_def int_literal_5242880
      size_mb_5242880 lower_mp3 Let_def)

section \<open>The two attempts and the handlers\<close>

text \<open>
  C5.  If the primary parser raises the header-not-found condition, the result is a
  non-error degraded report whose file size is the probe-derived size, whose duration is
  exactly "Unknown (headers not found)", and whose channels, sample rate and bitrate
  are all "Unknown".
\<close>

theorem header_not_found_degraded:
  assumes "fetch w = (Inr (total_size, file_extension, temp_path, content), fs)"
    and "mutagen w (dispatch file_extension) temp_path content = Inl (HeaderNotFoundError m)"
  shows "\<exists>mb. probe w = Inr total_size \<and> size_mb total_size = Inr mb
           \<and> fst (get_mp3_metadata w) =
               Inr [''file_size'' \<mapsto> mb @ '' MB'',
                    ''duration'' \<mapsto> ''Unknown (headers not found)'',
                    ''channels'' \<mapsto> ''Unknown'',
                    ''sample_rate'' \<mapsto> ''Unknown'',
                    ''bitrate'' \<mapsto> ''Unknown'']"
proof -
  obtain mb where mb: "size_mb total_size = Inr mb"
    using fetch_Inr(2) [OF assms(1)] by blast
  have "try_block w total_size file_extension temp_path content = Inl (HeaderNotFoundError m)"
    using assms(2) by (rule try_block_primary_raises)
  then have "fst (get_mp3_metadata w) = handlers total_size (HeaderNotFoundError m)"
    by (simp add: run_after_fetch [OF assms(1)] handlers_header_not_found [OF mb])
  then show ?thesis
    using mb fetch_Inr(1) [OF assms(1)] handlers_header_not_found [OF mb] by simp
qed

text \<open>The scenario with an MP3 parser that finds no frame header.\<close>

theorem header_not_found_degraded_witness:
  "fst (get_mp3_metadata
         (example_world\<lparr>mutagen := \<lambda>p path content.
            Inl (HeaderNotFoundError ''can not sync to MPEG frame'')\<rparr>)) =
     Inr [''file_size'' \<mapsto> ''5.00 MB'',
          ''duration'' \<mapsto> ''Unknown (headers not found)'',
          ''channels'' \<mapsto> ''Unknown'',
          ''sample_rate'' \<mapsto> ''Unknown'',
          ''bitrate'' \<mapsto> ''Unknown'']"
proof -
  let ?w = "example_world\<lparr>mutagen := \<lambda>p path content.
              Inl (HeaderNotFoundError ''can not sync to MPEG frame'')\<rparr>"
  have f: "fetch ?w = (Inr (5242880, ''.mp3'', ''/tmp/tmpk3v9.mp3'', ''ID3frames''),
                       [''/tmp/tmpk3v9.mp3'' \<mapsto> ''ID3frames''])"
    by (simp only: fetch_other_parsers fetch_example_world)
  have p: "mutagen ?w (dispatch ''.mp3'') ''/tmp/tmpk3v9.mp3'' ''ID3frames''
             = Inl (HeaderNotFoundError ''can not sync to MPEG frame'')"
    by simp
  show ?thesis
    using header_not_found_degraded [OF f p] size_mb_5242880 by auto
qed

text \<open>
  C10.  If the generic parser of the second attempt, called after the primary parser
  yielded no usable structural info, raises the header-not-found condition, the call
  also returns the degraded report: file size from the probe, duration
  "Unknown (headers not found)", and "Unknown" for channels, sample rate and bitrate.
\<close>

theorem fallback_header_not_found_degraded:
  assumes "fetch w = (Inr (total_size, file_extension, temp_path, content), fs)"
    and "mutagen w (dispatch file_extension) temp_path content = Inr audio"
    and "usable_info audio = None"
    and "mutagen w File temp_path content = Inl (HeaderNotFoundError m)"
  shows "\<exists>mb. probe w = Inr total_size \<and> size_mb total_size = Inr mb
           \<and> fst (get_mp3_metadata w) =
               Inr [''file_size'' \<mapsto> mb @ '' MB'',
                    ''duration'' \<mapsto> ''Unknown (headers not found)'',
                    ''channels'' \<mapsto> ''Unknown'',
                    ''sample_rate'' \<mapsto> ''Unknown'',
                    ''bitrate'' \<mapsto> ''Unknown'']"
proof -
  obtain mb where mb: "size_mb total_size = Inr mb"
    using fetch_Inr(2) [OF assms(1)] by blast
  have "try_block w total_size file_extension temp_path content = Inl (HeaderNotFoundError m)"
    using assms(2,3,4) by (rule try_block_fallback_raises)
  then have "fst (get_mp3_metadata w) = handlers total_size (HeaderNotFoundError m)"
    by (simp add: run_after_fetch [OF assms(1)] handlers_header_not_found [OF mb])
  then show ?thesis
    using mb fetch_Inr(1) [OF assms(1)] handlers_header_not_found [OF mb] by simp
qed

text \<open>
  The scenario with an MP3 parser that returns an object whose info is \<open>None\<close> and a
  generic parser that finds no frame header.
\<close>

theorem fallback_header_not_found_degraded_witness:
  "fst (get_mp3_metadata
         (example_world\<lparr>mutagen := \<lambda>p path content.
            if p = File then Inl (HeaderNotFoundError ''can not sync to MPEG frame'')
            else Inr (Some (InfoAttr None))\<rparr>)) =
     Inr [''file_size'' \<mapsto> ''5.00 MB'',
          ''duration'' \<mapsto> ''Unknown (headers not found)'',
          ''channels'' \<mapsto> ''Unknown'',
          ''sample_rate'' \<mapsto> ''Unknown'',
          ''bitrate'' \<mapsto> ''Unknown'']"
proof -
  let ?w = "example_world\<lparr>mutagen := \<lambda>p path content.
              if p = File then Inl (HeaderNotFoundError ''can not sync to MPEG frame'')
              else Inr (Some (InfoAttr None))\<rparr>"
  have f: "fetch ?w = (Inr (5242880, ''.mp3'', ''/tmp/tmpk3v9.mp3'', ''ID3frames''),
                       [''/tmp/tmpk3v9.mp3'' \<mapsto> ''ID3frames''])"
    by (simp only: fetch_other_parsers fetch_example_world)
  have p: "mutagen ?w (dispatch ''.mp3'') ''/tmp/tmpk3v9.mp3'' ''ID3frames''
             = Inr (Some (InfoAttr None))"
    by (simp add: dispatch_mp3)
  have u: "usable_info (Some (InfoAttr None)) = None"
    by simp
  have g: "mutagen ?w File ''/tmp/tmpk3v9.mp3'' ''ID3frames''
             = Inl (HeaderNotFoundError ''can not sync to MPEG frame'')"
    by simp
  show ?thesis
    using fallback_header_not_found_degraded [OF f p u g] size_mb_5242880 by auto
qed

text \<open>
  C6.  For every file where the primary parser yields no usable structural info but the
  generic fallback parser yields usable info, the final report is the report that the
  rules of the first attempt (duration, channels, sample rate, bitrate) give for the
  fallback's info, and it equals the report of any run with the same probe size in which
  the generic parser is the one dispatched and finds that info at once.
\<close>

theorem fallback_report_matches_generic:
  assumes "fetch w = (Inr (total_size, file_extension, temp_path, content), fs)"
    and "mutagen w (dispatch file_extension) temp_path content = Inr audio"
    and "usable_info audio = None"
    and "mutagen w File temp_path content = Inr audio2"
    and "usable_info audio2 = Some i"
  shows "fst (get_mp3_metadata w) = report_primary total_size i
       \<and> (\<exists>r. report_primary total_size i = Inr r)
       \<and> (\<forall>w' file_extension' temp_path' content' fs' generic.
             fetch w' = (Inr (total_size, file_extension', temp_path', content'), fs')
             \<and> dispatch file_extension' = File
             \<and> mutagen w' File temp_path' content' = Inr generic
             \<and> usable_info generic = Some i \<longrightarrow>
               fst (get_mp3_metadata w') = fst (get_mp3_metadata w))"
proof -
  obtain mb where mb: "size_mb total_size = Inr mb"
    using fetch_Inr(2) [OF assms(1)] by blast
  obtain r where r: "report_primary total_size i = Inr r"
    using report_primary_total [OF mb] by blast
  have "try_block w total_size file_extension temp_path content = report_fallback total_size i"
    using assms(2-5) by (rule try_block_fallback_usable)
  then have here: "fst (get_mp3_metadata w) = report_primary total_size i"
    by (simp add: run_after_fetch [OF assms(1)] report_fallback_eq r)
  have "fst (get_mp3_metadata w') = fst (get_mp3_metadata w)"
    if f': "fetch w' = (Inr (total_size, file_extension', temp_path', content'), fs')"
      and d: "dispatch file_extension' = File"
      and g: "mutagen w' File temp_path' content' = Inr generic"
      and u: "usable_info generic = Some i"
    for w' file_extension' temp_path' content' fs' generic
  proof -
    have "mutagen w' (dispatch file_extension') temp_path' content' = Inr generic"
      using d g by simp
    then have "try_block w' total_size file_extension' temp_path' content'
                 = report_primary total_size i"
      using u by (rule try_block_primary_usable)
    then show ?thesis
      by (simp add: run_after_fetch [OF f'] here r)
  qed
  then show ?thesis
    using here r by blast
qed

text \<open>
  The scenario with an MP3 parser that returns an object whose info is \<open>None\<close> and a
  generic parser that finds the info of the scenario; the second run has no extension
  in its URL, so the generic parser is the first one called.
\<close>

theorem fallback_report_matches_generic_witness:
  "fst (get_mp3_metadata
         (example_world\<lparr>mutagen := \<lambda>p path content.
            if p = File then Inr (Some (InfoAttr (Some example_info)))
            else Inr (Some (InfoAttr None))\<rparr>)) =
     Inr [''file_size'' \<mapsto> ''5.00 MB'', ''duration'' \<mapsto> ''3:05'', ''channels'' \<mapsto> ''Stereo'',
          ''sample_rate'' \<mapsto> ''44100 Hz'', ''bitrate'' \<mapsto> ''192 kbps'']
   \<and> fst (get_mp3_metadata
         (example_world\<lparr>url_suffix := [], mutagen := \<lambda>p path content.
            if p = File then Inr (Some (InfoAttr (Some example_info)))
            else Inr (Some (InfoAttr None))\<rparr>)) =
     fst (get_mp3_metadata
         (example_world\<lparr>mutagen := \<lambda>p path content.
            if p = File then Inr (Some (InfoAttr (Some example_info)))
            else Inr (Some (InfoAttr None))\<rparr>))"
proof -
  let ?m = "\<lambda>p (path :: string) (content :: bytes).
              if p = File then Inr (Some (InfoAttr (Some example_info)))
              else (Inr (Some (InfoAttr None)) :: exn + audio option)"
  let ?w = "example_world\<lparr>mutagen := ?m\<rparr>"
  let ?w' = "example_world\<lparr>url_suffix := [], mutagen := ?m\<rparr>"
  have f: "fetch ?w = (Inr (5242880, ''.mp3'', ''/tmp/tmpk3v9.mp3'', ''ID3frames''),
                       [''/tmp/tmpk3v9.mp3'' \<mapsto> ''ID3frames''])"
    by (simp only: fetch_other_parsers fetch_example_world)
  have p: "mutagen ?w (dispatch ''.mp3'') ''/tmp/tmpk3v9.mp3'' ''ID3frames''
             = Inr (Some (InfoAttr None))"
    by (simp add: dispatch_mp3)
  have u: "usable_info (Some (InfoAttr None)) = None"
    by simp
  have g: "mutagen ?w File ''/tmp/tmpk3v9.mp3'' ''ID3frames''
             = Inr (Some (InfoAttr (Some example_info)))"
    by simp
  have u2: "usable_info (Some (InfoAttr (Some example_info))) = Some example_info"
    by simp
  note t = fallback_report_matches_generic [OF f p u g u2]
  have second:
    "fetch ?w' = (Inr (5242880, [], ''/tmp/tmpk3v9'', ''ID3frames''),
                  [''/tmp/tmpk3v9'' \<mapsto> ''ID3frames''])
     \<and> dispatch [] = File
     \<and> mutagen ?w' File ''/tmp/tmpk3v9'' ''ID3frames''
         = Inr (Some (InfoAttr (Some example_info)))
     \<and> usable_info (Some (InfoAttr (Some example_info))) = Some example_info"
    by (simp add: fetch_example_no_suffix dispatch_no_suffix)
  have "fst (get_mp3_metadata ?w) = report_primary 5242880 example_info"
    using t by blast
  moreover have "fst (get_mp3_metadata ?w') = fst (get_mp3_metadata ?w)"
    using t second by blast
  ultimately show ?thesis
    by (simp add: report_example)
qed

section \<open>The boundary of the function\<close>

text \<open>
  C9.  The extractor never raises past its own boundary.  For every input the call
  returns a dict, which is either an error record (its only key is \<open>error\<close>) or a
  metadata record (its keys are the five fields).  Any exception raised during
  parsing, by the parser of the first attempt or by the generic parser of the second
  one, other than the header-not-found condition, is caught, and the error record
  carries the text of that exception; an exception raised before parsing is caught by
  the outermost handler, and the error record carries its text.
\<close>

theorem never_raises:
  "(\<exists>r. fst (get_mp3_metadata w) = Inr r \<and> (dom r = {''error''} \<or> dom r = metadata_keys))
   \<and> (\<forall>total_size file_extension temp_path content fs e.
         fetch w = (Inr (total_size, file_extension, temp_path, content), fs)
         \<and> (mutagen w (dispatch file_extension) temp_path content = Inl e
            \<or> (\<exists>audio. mutagen w (dispatch file_extension) temp_path content = Inr audio
                  \<and> usable_info audio = None
                  \<and> mutagen w File temp_path content = Inl e))
         \<and> (\<forall>m. e \<noteq> HeaderNotFoundError m) \<longrightarrow>
           fst (get_mp3_metadata w) =
             Inr [''error'' \<mapsto> ''Error extracting metadata: '' @ str_exn e])
   \<and> (\<forall>e fs. fetch w = (Inl e, fs) \<longrightarrow>
         fst (get_mp3_metadata w) =
           Inr [''error'' \<mapsto> ''Error retrieving metadata: '' @ str_exn e])"
proof (intro conjI allI impI)
  show "\<exists>r. fst (get_mp3_metadata w) = Inr r \<and> (dom r = {''error''} \<or> dom r = metadata_keys)"
  proof (cases "fetch w")
    case (Pair outcome fs)
    show ?thesis
    proof (cases outcome)
      case (Inl e)
      then show ?thesis
        using run_fetch_failed [of w e fs] Pair by simp
    next
      case (Inr fetched)
      obtain total_size file_extension temp_path content
        where f: "fetch w = (Inr (total_size, file_extension, temp_path, content), fs)"
        using Pair Inr by (cases fetched) auto
      from f show ?thesis
      proof (cases rule: run_after_fetch_cases)
        case (report i r)
        then show ?thesis
          using report_primary_dom by blast
      next
        case (degraded mb)
        then show ?thesis
          by (auto simp: metadata_keys_def)
      next
        case (error m)
        then show ?thesis
          by simp
      qed
    qed
  qed
next
  fix total_size file_extension temp_path content fs e
  assume a: "fetch w = (Inr (total_size, file_extension, temp_path, content), fs)
         \<and> (mutagen w (dispatch file_extension) temp_path content = Inl e
            \<or> (\<exists>audio. mutagen w (dispatch file_extension) temp_path content = Inr audio
                  \<and> usable_info audio = None
                  \<and> mutagen w File temp_path content = Inl e))
         \<and> (\<forall>m. e \<noteq> HeaderNotFoundError m)"
  then have f: "fetch w = (Inr (total_size, file_extension, temp_path, content), fs)"
    and other: "\<forall>m. e \<noteq> HeaderNotFoundError m"
    by simp_all
  have "try_block w total_size file_extension temp_path content = Inl e"
    using a try_block_primary_raises try_block_fallback_raises by blast
  then show "fst (get_mp3_metadata w) =
               Inr [''error'' \<mapsto> ''Error extracting metadata: '' @ str_exn e]"
    by (simp add: run_after_fetch [OF f] handlers_other [OF other])
next
  fix e fs
  assume "fetch w = (Inl e, fs)"
  then show "fst (get_mp3_metadata w) =
               Inr [''error'' \<mapsto> ''Error retrieving metadata: '' @ str_exn e]"
    by (simp add: run_fetch_failed)
qed

text \<open>
  The scenario with an MP3 parser that raises some other exception, and the scenario
  with a probe that times out.
\<close>

theorem never_raises_witness:
  "fst (get_mp3_metadata
         (example_world\<lparr>mutagen := \<lambda>p path content.
            Inl (OtherException ''unpack requires a buffer of 4 bytes'')\<rparr>)) =
     Inr [''error'' \<mapsto> ''Error extracting metadata: unpack requires a buffer of 4 bytes'']
   \<and> fst (get_mp3_metadata
         (example_world\<lparr>head_response := Inl (OtherException ''Read timed out.'')\<rparr>)) =
     Inr [''error'' \<mapsto> ''Error retrieving metadata: Read timed out.'']"
proof -
  let ?w = "example_world\<lparr>mutagen := \<lambda>p path content.
              Inl (OtherException ''unpack requires a buffer of 4 bytes'')\<rparr>"
  let ?v = "example_world\<lparr>head_response := Inl (OtherException ''Read timed out.'')\<rparr>"
  have f: "fetch ?w = (Inr (5242880, ''.mp3'', ''/tmp/tmpk3v9.mp3'', ''ID3frames''),
                       [''/tmp/tmpk3v9.mp3'' \<mapsto> ''ID3frames''])"
    by (simp only: fetch_other_parsers fetch_example_world)
  have p: "mutagen ?w (dispatch ''.mp3'') ''/tmp/tmpk3v9.mp3'' ''ID3frames''
             = Inl (OtherException ''unpack requires a buffer of 4 bytes'')"
    by simp
  have o: "\<forall>m. OtherException ''unpack requires a buffer of 4 bytes'' \<noteq> HeaderNotFoundError m"
    by simp
  have g: "fetch ?v = (Inl (OtherException ''Read timed out.''), Map.empty)"
    by (simp add: fetch_def probe_def example_world_def)
  have "fst (get_mp3_metadata ?w) =
          Inr [''error'' \<mapsto> ''Error extracting metadata: ''
                 @ str_exn (OtherException ''unpack requires a buffer of 4 bytes'')]"
    using never_raises [of ?w] f p o by blast
  moreover have "fst (get_mp3_metadata ?v) =
          Inr [''error'' \<mapsto> ''Error retrieving metadata: ''
                 @ str_exn (OtherException ''Read timed out.'')]"
    using never_raises [of ?v] g by blast
  ultimately show ?thesis
    by simp
qed

end
